theory Spec2Isabelle
  imports Main "HOL-Library.Word"
begin

section \<open>The node interface read by NodeGroup\<close>

text \<open>
  \<^verbatim>\<open>node_group.py\<close> wraps a list of tree-sitter nodes. The node class belongs to the
  \<^verbatim>\<open>tree_sitter\<close> package; NodeGroup reads six of its attributes (\<^verbatim>\<open>start_byte\<close>,
  \<^verbatim>\<open>end_byte\<close>, \<^verbatim>\<open>start_point\<close>, \<^verbatim>\<open>end_point\<close>, \<^verbatim>\<open>type\<close>, \<^verbatim>\<open>text\<close>), and a node has
  children of its own. Byte offsets are Python ints, a point is a (row, column) pair,
  the type is a str and the text is a bytes value, as the annotation \<^verbatim>\<open>-> bytes\<close> of
  \<^verbatim>\<open>NodeGroup.text\<close> presupposes.
\<close>

type_synonym byte = "8 word"
type_synonym bytes = "byte list"

record point =
  row :: int
  column :: int

datatype ts_Node = Node
  (node_start_byte: int)
  (node_end_byte: int)
  (node_start_point: point)
  (node_end_point: point)
  (node_children: "ts_Node list")
  (node_type: string)
  (node_text: bytes)

section \<open>Python primitives used by the class\<close>

text \<open>
  The exceptions the class can raise: the \<^verbatim>\<open>assert\<close> of the constructor, carrying its
  message, and the IndexError of \<^verbatim>\<open>self._nodes[0]\<close> or \<^verbatim>\<open>self._nodes[-1]\<close> on an empty
  list.
\<close>

datatype error = AssertionError string | IndexError

text \<open>
  \<^verbatim>\<open>xs[i]\<close> on a Python list: an index below zero is counted from the end, and an index
  outside the list raises.
\<close>

definition getitem :: "'a list \<Rightarrow> int \<Rightarrow> error + 'a" where
  "getitem xs i =
     (if 0 \<le> i \<and> i < int (length xs) then Inr (xs ! nat i)
      else if i < 0 \<and> - int (length xs) \<le> i then Inr (xs ! nat (i + int (length xs)))
      else Inl IndexError)"

text \<open>
  \<^verbatim>\<open>sep.join(parts)\<close> on bytes: the parts in order, with \<^verbatim>\<open>sep\<close> between two
  neighbours, nothing before the first part and nothing after the last.
\<close>

fun join :: "bytes \<Rightarrow> bytes list \<Rightarrow> bytes" where
  "join sep [] = []"
| "join sep [p] = p"
| "join sep (p # q # ps) = p @ sep @ join sep (q # ps)"

section \<open>The class NodeGroup\<close>

text \<open>
  An object of the class has one attribute, \<^verbatim>\<open>_nodes\<close> (the field \<open>nodes\<close> here). Every
  method is modelled with the object passed in and handed back next to the result, so
  that what a call does to the object is part of the model. The record holds the contents
  of the list; the list as an object that the group shares with its caller is the subject
  of the section on the store below.
\<close>

record NodeGroup =
  nodes :: "ts_Node list"

text \<open>
  \<^verbatim>\<open>__init__\<close>:
  \<^verbatim>\<open>assert len(nodes) > 0, "NodeGroup must contain at least one node"; self._nodes = nodes\<close>
\<close>

definition NodeGroup_init :: "ts_Node list \<Rightarrow> error + NodeGroup" where
  "NodeGroup_init ns =
     (if length ns > 0 then Inr \<lparr>nodes = ns\<rparr>
      else Inl (AssertionError ''NodeGroup must contain at least one node''))"

text \<open>\<^verbatim>\<open>start_byte\<close>: \<^verbatim>\<open>return self._nodes[0].start_byte\<close>\<close>

definition NodeGroup_start_byte :: "NodeGroup \<Rightarrow> (error + int) \<times> NodeGroup" where
  "NodeGroup_start_byte self =
     (case getitem (nodes self) 0 of
        Inl e \<Rightarrow> (Inl e, self)
      | Inr n \<Rightarrow> (Inr (node_start_byte n), self))"

text \<open>\<^verbatim>\<open>end_byte\<close>: \<^verbatim>\<open>return self._nodes[-1].end_byte\<close>\<close>

definition NodeGroup_end_byte :: "NodeGroup \<Rightarrow> (error + int) \<times> NodeGroup" where
  "NodeGroup_end_byte self =
     (case getitem (nodes self) (- 1) of
        Inl e \<Rightarrow> (Inl e, self)
      | Inr n \<Rightarrow> (Inr (node_end_byte n), self))"

text \<open>\<^verbatim>\<open>start_point\<close>: \<^verbatim>\<open>return self._nodes[0].start_point\<close>\<close>

definition NodeGroup_start_point :: "NodeGroup \<Rightarrow> (error + point) \<times> NodeGroup" where
  "NodeGroup_start_point self =
     (case getitem (nodes self) 0 of
        Inl e \<Rightarrow> (Inl e, self)
      | Inr n \<Rightarrow> (Inr (node_start_point n), self))"

text \<open>\<^verbatim>\<open>end_point\<close>: \<^verbatim>\<open>return self._nodes[-1].end_point\<close>\<close>

definition NodeGroup_end_point :: "NodeGroup \<Rightarrow> (error + point) \<times> NodeGroup" where
  "NodeGroup_end_point self =
     (case getitem (nodes self) (- 1) of
        Inl e \<Rightarrow> (Inl e, self)
      | Inr n \<Rightarrow> (Inr (node_end_point n), self))"

text \<open>\<^verbatim>\<open>children\<close>: \<^verbatim>\<open>return self._nodes\<close>\<close>

definition NodeGroup_children :: "NodeGroup \<Rightarrow> ts_Node list \<times> NodeGroup" where
  "NodeGroup_children self = (nodes self, self)"

text \<open>\<^verbatim>\<open>type\<close>: \<^verbatim>\<open>return self._nodes[-1].type\<close>\<close>

definition NodeGroup_type :: "NodeGroup \<Rightarrow> (error + string) \<times> NodeGroup" where
  "NodeGroup_type self =
     (case getitem (nodes self) (- 1) of
        Inl e \<Rightarrow> (Inl e, self)
      | Inr n \<Rightarrow> (Inr (node_type n), self))"

text \<open>\<^verbatim>\<open>text\<close>: \<^verbatim>\<open>return b"\n".join(n.text for n in self._nodes)\<close>\<close>

definition NodeGroup_text :: "NodeGroup \<Rightarrow> bytes \<times> NodeGroup" where
  "NodeGroup_text self = (join [0x0A] (map node_text (nodes self)), self)"

text \<open>
  \<^verbatim>\<open>__repr__\<close>:
  \<^verbatim>\<open>types = [n.type for n in self._nodes]\<close>,
  \<^verbatim>\<open>return f"NodeGroup({types}, bytes={self.start_byte}..{self.end_byte})"\<close>.
  The f-string reads \<^verbatim>\<open>self.start_byte\<close>, then \<^verbatim>\<open>self.end_byte\<close>; an exception of the
  first ends the call. How Python prints a list of str and an int is taken as the
  parameters \<open>fmt_list\<close> and \<open>fmt_int\<close>.
\<close>

definition NodeGroup_repr ::
  "(string list \<Rightarrow> string) \<Rightarrow> (int \<Rightarrow> string) \<Rightarrow> NodeGroup \<Rightarrow> (error + string) \<times> NodeGroup" where
  "NodeGroup_repr fmt_list fmt_int self =
     (let types = map node_type (nodes self) in
      case NodeGroup_start_byte self of
        (Inl e, self1) \<Rightarrow> (Inl e, self1)
      | (Inr s, self1) \<Rightarrow>
          (case NodeGroup_end_byte self1 of
             (Inl e, self2) \<Rightarrow> (Inl e, self2)
           | (Inr t, self2) \<Rightarrow>
               (Inr (''NodeGroup('' @ fmt_list types @ '', bytes='' @ fmt_int s
                       @ ''..'' @ fmt_int t @ '')''), self2)))"

section \<open>The list object behind a group\<close>

text \<open>
  A Python list is an object with an identity. \<^verbatim>\<open>self._nodes = nodes\<close> stores the
  reference the constructor was given, without a copy, and \<^verbatim>\<open>return self._nodes\<close> hands
  that reference out. The store maps a reference to the contents of the list object it
  denotes, and an object of the class holds the reference.
\<close>

type_synonym ref = nat
type_synonym store = "ref \<Rightarrow> ts_Node list"

record NodeGroup_object =
  nodes_ref :: ref

text \<open>The group as a method body sees it: the list behind the reference, as it is now.\<close>

definition stored :: "store \<Rightarrow> NodeGroup_object \<Rightarrow> NodeGroup" where
  "stored h obj = \<lparr>nodes = h (nodes_ref obj)\<rparr>"

text \<open>
  \<^verbatim>\<open>NodeGroup(nodes)\<close> with \<^verbatim>\<open>nodes\<close> the list object at \<open>r\<close>: the assert reads the
  list, and the new object refers to that same list.
\<close>

definition NodeGroup_new :: "store \<Rightarrow> ref \<Rightarrow> (error + NodeGroup_object) \<times> store" where
  "NodeGroup_new h r =
     (case NodeGroup_init (h r) of
        Inl e \<Rightarrow> (Inl e, h)
      | Inr g \<Rightarrow> (Inr \<lparr>nodes_ref = r\<rparr>, h(r := nodes g)))"

text \<open>
  A call of a method on the object: the body runs on the list behind the reference, and
  what the body leaves in \<^verbatim>\<open>_nodes\<close> is what the list object holds after the call.
\<close>

definition call ::
  "(NodeGroup \<Rightarrow> 'a \<times> NodeGroup) \<Rightarrow> store \<Rightarrow> NodeGroup_object \<Rightarrow> 'a \<times> store" where
  "call method h obj =
     (case method (stored h obj) of
        (v, self') \<Rightarrow> (v, h(nodes_ref obj := nodes self')))"

text \<open>
  \<^verbatim>\<open>children\<close> in the store: the value of \<^verbatim>\<open>return self._nodes\<close> is the reference
  itself, so the caller holds the very list the group reads.
\<close>

definition children_ref :: "store \<Rightarrow> NodeGroup_object \<Rightarrow> ref \<times> store" where
  "children_ref h obj = (nodes_ref obj, snd (call NodeGroup_children h obj))"

text \<open>\<^verbatim>\<open>xs.append(x)\<close> on the list object at \<open>r\<close>, as any holder of the reference may do.\<close>

definition list_append :: "store \<Rightarrow> ref \<Rightarrow> ts_Node \<Rightarrow> store" where
  "list_append h r x = h(r := h r @ [x])"

section \<open>The source buffer and a small example\<close>

text \<open>
  Modelled from the spec: the slice \<^verbatim>\<open>[start_byte, end_byte)\<close> of the underlying source
  buffer, which the spec names as the authoritative text of a span; the code that slices the
  buffer is not part of \<^verbatim>\<open>node_group.py\<close>. It is Python's \<^verbatim>\<open>buf[lo:hi]\<close>: an index below
  zero is counted from the end, both indices are then cut to the range of the buffer, and
  the slice is empty when the upper index does not exceed the lower one.
\<close>

definition source_slice :: "bytes \<Rightarrow> int \<Rightarrow> int \<Rightarrow> bytes" where
  "source_slice buf lo hi =
     (let n = int (length buf);
          a = (if lo < 0 then max (lo + n) 0 else min lo n);
          b = (if hi < 0 then max (hi + n) 0 else min hi n)
      in take (nat (b - a)) (drop (nat a) buf))"

text \<open>
  A five-byte buffer, \<^verbatim>\<open>b"@d\n\nf"\<close>: a decorator on the first line, an empty line, and
  a definition on the third line, with the two nodes a parser reports for them. The
  definition has one child, its name.
\<close>

definition example_source :: bytes where
  "example_source = [0x40, 0x64, 0x0A, 0x0A, 0x66]"

definition example_decorator :: ts_Node where
  "example_decorator =
     Node 0 2 \<lparr>row = 0, column = 0\<rparr> \<lparr>row = 0, column = 2\<rparr> [] ''decorator'' [0x40, 0x64]"

definition example_identifier :: ts_Node where
  "example_identifier =
     Node 4 5 \<lparr>row = 2, column = 0\<rparr> \<lparr>row = 2, column = 1\<rparr> [] ''identifier'' [0x66]"

definition example_definition :: ts_Node where
  "example_definition =
     Node 4 5 \<lparr>row = 2, column = 0\<rparr> \<lparr>row = 2, column = 1\<rparr> [example_identifier]
       ''function_definition'' [0x66]"

text \<open>A store whose list object 0 holds the decorator alone; every other list is empty.\<close>

definition example_store :: store where
  "example_store = (\<lambda>r. [])(0 := [example_decorator])"

lemmas example_defs = example_source_def example_decorator_def example_identifier_def
  example_definition_def

section \<open>Indexing a list that is not empty\<close>

lemma getitem_first: "xs \<noteq> [] \<Longrightarrow> getitem xs 0 = Inr (hd xs)"
  by (cases xs) (simp_all add: getitem_def)

lemma getitem_last: "xs \<noteq> [] \<Longrightarrow> getitem xs (- 1) = Inr (last xs)"
proof -
  assume ne: "xs \<noteq> []"
  then have len: "0 < length xs" by simp
  then have "nat (- 1 + int (length xs)) = length xs - 1" by arith
  with ne len show ?thesis
    by (simp add: getitem_def last_conv_nth Suc_le_eq)
qed

lemma getitem_empty: "getitem [] i = Inl IndexError"
  by (simp add: getitem_def)

section \<open>What each method returns on a group that is not empty\<close>

lemma init_accepts: "ns \<noteq> [] \<Longrightarrow> NodeGroup_init ns = Inr \<lparr>nodes = ns\<rparr>"
  by (simp add: NodeGroup_init_def)

lemma start_byte_value:
  "ns \<noteq> [] \<Longrightarrow> NodeGroup_start_byte \<lparr>nodes = ns\<rparr> = (Inr (node_start_byte (hd ns)), \<lparr>nodes = ns\<rparr>)"
  by (simp add: NodeGroup_start_byte_def getitem_first)

lemma end_byte_value:
  "ns \<noteq> [] \<Longrightarrow> NodeGroup_end_byte \<lparr>nodes = ns\<rparr> = (Inr (node_end_byte (last ns)), \<lparr>nodes = ns\<rparr>)"
  by (simp add: NodeGroup_end_byte_def getitem_last)

lemma start_point_value:
  "ns \<noteq> [] \<Longrightarrow> NodeGroup_start_point \<lparr>nodes = ns\<rparr> = (Inr (node_start_point (hd ns)), \<lparr>nodes = ns\<rparr>)"
  by (simp add: NodeGroup_start_point_def getitem_first)

lemma end_point_value:
  "ns \<noteq> [] \<Longrightarrow> NodeGroup_end_point \<lparr>nodes = ns\<rparr> = (Inr (node_end_point (last ns)), \<lparr>nodes = ns\<rparr>)"
  by (simp add: NodeGroup_end_point_def getitem_last)

lemma type_value:
  "ns \<noteq> [] \<Longrightarrow> NodeGroup_type \<lparr>nodes = ns\<rparr> = (Inr (node_type (last ns)), \<lparr>nodes = ns\<rparr>)"
  by (simp add: NodeGroup_type_def getitem_last)

lemma repr_value:
  "ns \<noteq> [] \<Longrightarrow> NodeGroup_repr fl fi \<lparr>nodes = ns\<rparr> =
     (Inr (''NodeGroup('' @ fl (map node_type ns) @ '', bytes='' @ fi (node_start_byte (hd ns))
            @ ''..'' @ fi (node_end_byte (last ns)) @ '')''), \<lparr>nodes = ns\<rparr>)"
  by (simp add: NodeGroup_repr_def start_byte_value end_byte_value)

section \<open>Joining byte strings\<close>

lemma join_splice:
  "ps \<noteq> [] \<Longrightarrow> join sep ps = concat (splice ps (replicate (length ps - 1) sep))"
  by (induction sep ps rule: join.induct) simp_all

lemma join_length:
  "ps \<noteq> [] \<Longrightarrow> length (join sep ps) = sum_list (map length ps) + (length ps - 1) * length sep"
  by (induction sep ps rule: join.induct) simp_all

lemma join_Cons: "join sep (p # ps) = p @ concat (map (\<lambda>q. sep @ q) ps)"
  by (induction ps arbitrary: p) simp_all

section \<open>Construction\<close>

text \<open>
  C1. Constructing a group from the empty list fails at once, with the AssertionError of
  the constructor (the spec's InvalidGroup condition) and without an object; from every
  list that is not empty, construction succeeds and the object holds that list; so a
  constructed group always holds at least one element.
\<close>

theorem NodeGroup_init_nonempty:
  "NodeGroup_init [] = Inl (AssertionError ''NodeGroup must contain at least one node'')
   \<and> (ns \<noteq> [] \<longrightarrow> NodeGroup_init ns = Inr \<lparr>nodes = ns\<rparr>)
   \<and> (NodeGroup_init ms = Inr g \<longrightarrow> ms \<noteq> [] \<and> nodes g = ms \<and> 1 \<le> length (nodes g))"
  by (auto simp: NodeGroup_init_def Suc_le_eq)

theorem NodeGroup_init_nonempty_witness:
  "NodeGroup_init [] = Inl (AssertionError ''NodeGroup must contain at least one node'')
   \<and> [example_decorator, example_definition] \<noteq> []
   \<and> NodeGroup_init [example_decorator, example_definition]
       = Inr \<lparr>nodes = [example_decorator, example_definition]\<rparr>
   \<and> length (nodes \<lparr>nodes = [example_decorator, example_definition]\<rparr>) = 2"
  using NodeGroup_init_nonempty [of "[example_decorator, example_definition]"
      "[example_decorator, example_definition]"
      "\<lparr>nodes = [example_decorator, example_definition]\<rparr>"]
  by simp

section \<open>Span, kind and members\<close>

text \<open>
  C2. A group constructed from a list that is not empty starts at the start byte of its
  first element and ends at the end byte of its last element, and its position span
  (start point, end point) is the start point of the first element and the end point of the
  last.
\<close>

theorem NodeGroup_span:
  "ns \<noteq> [] \<Longrightarrow>
   \<exists>g. NodeGroup_init ns = Inr g
     \<and> fst (NodeGroup_start_byte g) = Inr (node_start_byte (hd ns))
     \<and> fst (NodeGroup_end_byte g) = Inr (node_end_byte (last ns))
     \<and> (fst (NodeGroup_start_point g), fst (NodeGroup_end_point g))
         = (Inr (node_start_point (hd ns)), Inr (node_end_point (last ns)))"
  by (simp add: init_accepts start_byte_value end_byte_value start_point_value end_point_value)

theorem NodeGroup_span_witness:
  "fst (NodeGroup_start_byte \<lparr>nodes = [example_decorator, example_definition]\<rparr>) = Inr 0
   \<and> fst (NodeGroup_end_byte \<lparr>nodes = [example_decorator, example_definition]\<rparr>) = Inr 5
   \<and> fst (NodeGroup_start_point \<lparr>nodes = [example_decorator, example_definition]\<rparr>)
       = Inr \<lparr>row = 0, column = 0\<rparr>
   \<and> fst (NodeGroup_end_point \<lparr>nodes = [example_decorator, example_definition]\<rparr>)
       = Inr \<lparr>row = 2, column = 1\<rparr>"
  using NodeGroup_span [of "[example_decorator, example_definition]"]
  by (simp add: NodeGroup_init_def example_defs)

text \<open>
  C3. The type of a group is the type of its last element, whatever elements \<open>ms\<close> come
  before it and however many they are.
\<close>

theorem NodeGroup_type_last:
  "\<exists>g. NodeGroup_init (ms @ [n]) = Inr g
     \<and> nodes g = ms @ [n]
     \<and> fst (NodeGroup_type g) = Inr (node_type n)
     \<and> fst (NodeGroup_type g) = Inr (node_type (last (nodes g)))"
  by (simp add: init_accepts type_value)

text \<open>
  C4. The children of a group are the wrapped elements themselves, the list given at
  construction as it was given: nothing dropped, nothing added, nothing reordered, and not
  the children of those elements.
\<close>

theorem NodeGroup_children_members:
  "ns \<noteq> [] \<Longrightarrow> \<exists>g. NodeGroup_init ns = Inr g \<and> fst (NodeGroup_children g) = ns"
  by (simp add: init_accepts NodeGroup_children_def)

theorem NodeGroup_children_members_witness:
  "fst (NodeGroup_children \<lparr>nodes = [example_decorator, example_definition]\<rparr>)
     = [example_decorator, example_definition]
   \<and> fst (NodeGroup_children \<lparr>nodes = [example_decorator, example_definition]\<rparr>)
     \<noteq> concat (map node_children [example_decorator, example_definition])"
  using NodeGroup_children_members [of "[example_decorator, example_definition]"]
  by (simp add: NodeGroup_init_def example_defs)

section \<open>The reconstructed text\<close>

text \<open>
  C5. The text of a group is the texts of its members with one separator byte between two
  neighbours: the members' texts alternate with the separators, n texts and n - 1
  separators for a group of n members.
\<close>

theorem NodeGroup_text_joined:
  "ns \<noteq> [] \<Longrightarrow>
   \<exists>g. NodeGroup_init ns = Inr g
     \<and> fst (NodeGroup_text g)
         = concat (splice (map node_text ns) (replicate (length ns - 1) [0x0A]))
     \<and> length (map node_text ns) = length ns
     \<and> length (replicate (length ns - 1) [0x0A :: byte]) = length ns - 1"
  by (simp add: init_accepts NodeGroup_text_def join_splice)

theorem NodeGroup_text_joined_witness:
  "fst (NodeGroup_text \<lparr>nodes = [example_decorator, example_definition]\<rparr>)
     = [0x40, 0x64, 0x0A, 0x66]"
  using NodeGroup_text_joined [of "[example_decorator, example_definition]"]
  by (simp add: NodeGroup_init_def example_defs)

text \<open>
  C6. The text of a group is not the authoritative text: there is a source buffer and a
  group of two members, each member's text being its own slice of the buffer and a gap
  lying between the members, whose text differs from the slice of the buffer from the
  group's start byte to its end byte.
\<close>

theorem NodeGroup_text_not_authoritative:
  "\<exists>src a b g s e.
     node_text a = source_slice src (node_start_byte a) (node_end_byte a)
     \<and> node_text b = source_slice src (node_start_byte b) (node_end_byte b)
     \<and> node_end_byte a < node_start_byte b
     \<and> NodeGroup_init [a, b] = Inr g
     \<and> fst (NodeGroup_start_byte g) = Inr s
     \<and> fst (NodeGroup_end_byte g) = Inr e
     \<and> fst (NodeGroup_text g) \<noteq> source_slice src s e"
proof -
  let ?a = "example_decorator" and ?b = "example_definition"
  let ?g = "\<lparr>nodes = [?a, ?b]\<rparr>"
  have text_a: "node_text ?a = source_slice example_source (node_start_byte ?a) (node_end_byte ?a)"
    by (simp add: example_defs source_slice_def)
  have text_b: "node_text ?b = source_slice example_source (node_start_byte ?b) (node_end_byte ?b)"
    by (simp add: example_defs source_slice_def)
  have gap: "node_end_byte ?a < node_start_byte ?b"
    by (simp add: example_defs)
  have init: "NodeGroup_init [?a, ?b] = Inr ?g"
    by (simp add: NodeGroup_init_def)
  have first: "fst (NodeGroup_start_byte ?g) = Inr 0"
    by (simp add: start_byte_value example_defs)
  have final: "fst (NodeGroup_end_byte ?g) = Inr 5"
    by (simp add: end_byte_value example_defs)
  have joined: "fst (NodeGroup_text ?g) = [0x40, 0x64, 0x0A, 0x66]"
    by (simp add: NodeGroup_text_def example_defs)
  have sliced: "source_slice example_source 0 5 = [0x40, 0x64, 0x0A, 0x0A, 0x66]"
    by (simp add: source_slice_def example_defs)
  have differ: "fst (NodeGroup_text ?g) \<noteq> source_slice example_source 0 5"
    unfolding joined sliced by simp
  show ?thesis
    apply (rule exI [of _ example_source])
    apply (rule exI [of _ ?a])
    apply (rule exI [of _ ?b])
    apply (rule exI [of _ ?g])
    apply (rule exI [of _ 0])
    apply (rule exI [of _ 5])
    using text_a text_b gap init first final differ apply blast
    done
qed

section \<open>Calls leave the group as it was, writes to its list do not\<close>

text \<open>
  The group is not immutable after construction. A group is constructed from the list
  object 0, which holds the decorator alone; \<open>end_byte\<close> returns 2; \<open>children\<close> returns the
  reference 0; the caller appends the definition to that list; the stored element sequence
  of the group is now another one, and \<open>end_byte\<close>, called again, returns 5.
\<close>

theorem NodeGroup_immutable_counterexample:
  "NodeGroup_new example_store 0 = (Inr \<lparr>nodes_ref = 0\<rparr>, example_store)
   \<and> fst (call NodeGroup_end_byte example_store \<lparr>nodes_ref = 0\<rparr>) = Inr 2
   \<and> fst (children_ref example_store \<lparr>nodes_ref = 0\<rparr>) = 0
   \<and> nodes (stored (list_append example_store 0 example_definition) \<lparr>nodes_ref = 0\<rparr>)
       \<noteq> nodes (stored example_store \<lparr>nodes_ref = 0\<rparr>)
   \<and> fst (call NodeGroup_end_byte (list_append example_store 0 example_definition)
            \<lparr>nodes_ref = 0\<rparr>) = Inr 5"
  by (simp add: NodeGroup_new_def NodeGroup_init_def call_def stored_def children_ref_def
      list_append_def NodeGroup_children_def end_byte_value example_store_def
      example_decorator_def example_definition_def)

text \<open>
  C7, as amended. The accessors have no side effects. A group constructed from a list object
  that is not empty refers to that very list, and a call of \<open>start_byte\<close>, \<open>end_byte\<close>,
  \<open>start_point\<close>, \<open>end_point\<close>, \<open>children\<close>, \<open>type\<close>, \<open>text\<close> or \<open>__repr__\<close> returns its
  value and leaves the store, and with it the stored element sequence, as it was; so a
  second call of the same accessor, with no write to the list in between, gives what the
  first call gave.
\<close>

theorem NodeGroup_accessors_frame:
  "h r \<noteq> [] \<Longrightarrow>
   \<exists>obj. NodeGroup_new h r = (Inr obj, h) \<and> nodes_ref obj = r
     \<and> call NodeGroup_start_byte h obj = (Inr (node_start_byte (hd (h r))), h)
     \<and> call NodeGroup_end_byte h obj = (Inr (node_end_byte (last (h r))), h)
     \<and> call NodeGroup_start_point h obj = (Inr (node_start_point (hd (h r))), h)
     \<and> call NodeGroup_end_point h obj = (Inr (node_end_point (last (h r))), h)
     \<and> children_ref h obj = (r, h)
     \<and> call NodeGroup_children h obj = (h r, h)
     \<and> call NodeGroup_type h obj = (Inr (node_type (last (h r))), h)
     \<and> call NodeGroup_text h obj = (join [0x0A] (map node_text (h r)), h)
     \<and> call (NodeGroup_repr fmt_list fmt_int) h obj
         = (Inr (''NodeGroup('' @ fmt_list (map node_type (h r)) @ '', bytes=''
                  @ fmt_int (node_start_byte (hd (h r))) @ ''..''
                  @ fmt_int (node_end_byte (last (h r))) @ '')''), h)
     \<and> call NodeGroup_start_byte (snd (call NodeGroup_start_byte h obj)) obj
         = call NodeGroup_start_byte h obj
     \<and> call NodeGroup_end_byte (snd (call NodeGroup_end_byte h obj)) obj
         = call NodeGroup_end_byte h obj
     \<and> call NodeGroup_start_point (snd (call NodeGroup_start_point h obj)) obj
         = call NodeGroup_start_point h obj
     \<and> call NodeGroup_end_point (snd (call NodeGroup_end_point h obj)) obj
         = call NodeGroup_end_point h obj
     \<and> children_ref (snd (children_ref h obj)) obj = children_ref h obj
     \<and> call NodeGroup_children (snd (call NodeGroup_children h obj)) obj
         = call NodeGroup_children h obj
     \<and> call NodeGroup_type (snd (call NodeGroup_type h obj)) obj = call NodeGroup_type h obj
     \<and> call NodeGroup_text (snd (call NodeGroup_text h obj)) obj = call NodeGroup_text h obj
     \<and> call (NodeGroup_repr fmt_list fmt_int)
          (snd (call (NodeGroup_repr fmt_list fmt_int) h obj)) obj
         = call (NodeGroup_repr fmt_list fmt_int) h obj"
proof -
  assume ne: "h r \<noteq> []"
  let ?obj = "\<lparr>nodes_ref = r\<rparr>"
  have new: "NodeGroup_new h r = (Inr ?obj, h)"
    using ne by (simp add: NodeGroup_new_def init_accepts)
  have sb: "call NodeGroup_start_byte h ?obj = (Inr (node_start_byte (hd (h r))), h)"
    using ne by (simp add: call_def stored_def start_byte_value)
  have eb: "call NodeGroup_end_byte h ?obj = (Inr (node_end_byte (last (h r))), h)"
    using ne by (simp add: call_def stored_def end_byte_value)
  have sp: "call NodeGroup_start_point h ?obj = (Inr (node_start_point (hd (h r))), h)"
    using ne by (simp add: call_def stored_def start_point_value)
  have ep: "call NodeGroup_end_point h ?obj = (Inr (node_end_point (last (h r))), h)"
    using ne by (simp add: call_def stored_def end_point_value)
  have ch: "call NodeGroup_children h ?obj = (h r, h)"
    by (simp add: call_def stored_def NodeGroup_children_def)
  have cr: "children_ref h ?obj = (r, h)"
    by (simp add: children_ref_def ch)
  have ty: "call NodeGroup_type h ?obj = (Inr (node_type (last (h r))), h)"
    using ne by (simp add: call_def stored_def type_value)
  have tx: "call NodeGroup_text h ?obj = (join [0x0A] (map node_text (h r)), h)"
    by (simp add: call_def stored_def NodeGroup_text_def)
  have rp: "call (NodeGroup_repr fmt_list fmt_int) h ?obj
         = (Inr (''NodeGroup('' @ fmt_list (map node_type (h r)) @ '', bytes=''
                  @ fmt_int (node_start_byte (hd (h r))) @ ''..''
                  @ fmt_int (node_end_byte (last (h r))) @ '')''), h)"
    using ne by (simp add: call_def stored_def repr_value)
  show ?thesis
    apply (rule exI [of _ ?obj])
    apply (simp only: new sb eb sp ep ch cr ty tx rp snd_conv)
    apply simp
    done
qed

theorem NodeGroup_accessors_frame_witness:
  "list_append example_store 0 example_definition 0 \<noteq> []
   \<and> call NodeGroup_end_byte (list_append example_store 0 example_definition)
        \<lparr>nodes_ref = 0\<rparr>
       = (Inr 5, list_append example_store 0 example_definition)
   \<and> call NodeGroup_text (list_append example_store 0 example_definition)
        \<lparr>nodes_ref = 0\<rparr>
       = ([0x40, 0x64, 0x0A, 0x66], list_append example_store 0 example_definition)
   \<and> call NodeGroup_end_byte
        (snd (call NodeGroup_end_byte (list_append example_store 0 example_definition)
           \<lparr>nodes_ref = 0\<rparr>)) \<lparr>nodes_ref = 0\<rparr>
       = (Inr 5, list_append example_store 0 example_definition)"
proof -
  let ?h = "list_append example_store 0 example_definition"
  have content: "?h 0 = [example_decorator, example_definition]"
    by (simp add: list_append_def example_store_def)
  then have ne: "?h 0 \<noteq> []"
    by simp
  from ne NodeGroup_accessors_frame [of ?h 0 concat "\<lambda>i. if i < 0 then ''-'' else ''+''"]
  obtain obj where new: "NodeGroup_new ?h 0 = (Inr obj, ?h)" and ref: "nodes_ref obj = 0"
    and eb: "call NodeGroup_end_byte ?h obj = (Inr (node_end_byte (last (?h 0))), ?h)"
    and tx: "call NodeGroup_text ?h obj = (join [0x0A] (map node_text (?h 0)), ?h)"
    and eb2: "call NodeGroup_end_byte (snd (call NodeGroup_end_byte ?h obj)) obj
                = call NodeGroup_end_byte ?h obj"
    by blast
  from ref have obj: "obj = \<lparr>nodes_ref = 0\<rparr>"
    by simp
  have final: "node_end_byte (last (?h 0)) = 5"
    unfolding content by (simp add: example_definition_def)
  have joined: "join [0x0A] (map node_text (?h 0)) = [0x40, 0x64, 0x0A, 0x66]"
    unfolding content by (simp add: example_decorator_def example_definition_def)
  from ne eb tx eb2 show ?thesis
    unfolding obj final joined by simp
qed

section \<open>Groups of one and groups out of order\<close>

text \<open>
  C8. A group constructed from the one node \<open>n\<close> agrees with \<open>n\<close> in every accessor:
  start and end byte, start and end point and type are those of \<open>n\<close>, the children are
  the list holding \<open>n\<close> alone, and the text is the text of \<open>n\<close>, with no separator.
\<close>

theorem NodeGroup_singleton:
  "\<exists>g. NodeGroup_init [n] = Inr g
     \<and> fst (NodeGroup_start_byte g) = Inr (node_start_byte n)
     \<and> fst (NodeGroup_end_byte g) = Inr (node_end_byte n)
     \<and> fst (NodeGroup_start_point g) = Inr (node_start_point n)
     \<and> fst (NodeGroup_end_point g) = Inr (node_end_point n)
     \<and> fst (NodeGroup_type g) = Inr (node_type n)
     \<and> fst (NodeGroup_children g) = [n]
     \<and> fst (NodeGroup_text g) = node_text n"
  by (simp add: init_accepts start_byte_value end_byte_value start_point_value end_point_value
      type_value NodeGroup_children_def NodeGroup_text_def)

text \<open>
  C9. Construction does not look at the order of the elements: every list that is not
  empty is accepted, and there are two nodes, the second lying before the first in the
  source, whose group has an end byte strictly below its start byte.
\<close>

theorem NodeGroup_init_unordered:
  "NodeGroup_init (n # ns) = Inr \<lparr>nodes = n # ns\<rparr>
   \<and> (\<exists>a b g s e.
        node_end_byte b \<le> node_start_byte a \<and> node_start_byte b < node_start_byte a
        \<and> NodeGroup_init [a, b] = Inr g
        \<and> fst (NodeGroup_start_byte g) = Inr s
        \<and> fst (NodeGroup_end_byte g) = Inr e
        \<and> e < s)"
proof
  show "NodeGroup_init (n # ns) = Inr \<lparr>nodes = n # ns\<rparr>"
    by (simp add: init_accepts)
next
  let ?a = "example_definition" and ?b = "example_decorator"
  let ?g = "\<lparr>nodes = [?a, ?b]\<rparr>"
  have order: "node_end_byte ?b \<le> node_start_byte ?a" "node_start_byte ?b < node_start_byte ?a"
    by (simp_all add: example_defs)
  have init: "NodeGroup_init [?a, ?b] = Inr ?g"
    by (simp add: init_accepts)
  have first: "fst (NodeGroup_start_byte ?g) = Inr 4"
    by (simp add: start_byte_value example_defs)
  have final: "fst (NodeGroup_end_byte ?g) = Inr 2"
    by (simp add: end_byte_value example_defs)
  have less: "(2::int) < 4"
    by simp
  show "\<exists>a b g s e.
        node_end_byte b \<le> node_start_byte a \<and> node_start_byte b < node_start_byte a
        \<and> NodeGroup_init [a, b] = Inr g
        \<and> fst (NodeGroup_start_byte g) = Inr s
        \<and> fst (NodeGroup_end_byte g) = Inr e
        \<and> e < s"
    apply (rule exI [of _ ?a])
    apply (rule exI [of _ ?b])
    apply (rule exI [of _ ?g])
    apply (rule exI [of _ 4])
    apply (rule exI [of _ 2])
    using order init first final less apply blast
    done
qed

text \<open>
  C10. The separator of the text is the newline byte 0x0A: the text of a constructed group is
  the text of its first member, followed, for each later member in order, by the byte 0x0A
  and that member's text. So the text of a group of n members is as long as the texts of
  its members together, plus n - 1.
\<close>

theorem NodeGroup_text_length:
  "fst (NodeGroup_text \<lparr>nodes = [a, b]\<rparr>) = node_text a @ [0x0A] @ node_text b
   \<and> (ns \<noteq> [] \<longrightarrow>
        (\<exists>g. NodeGroup_init ns = Inr g
           \<and> fst (NodeGroup_text g) = join [0x0A] (map node_text ns)
           \<and> fst (NodeGroup_text g)
               = node_text (hd ns) @ concat (map (\<lambda>n. 0x0A # node_text n) (tl ns))
           \<and> length (fst (NodeGroup_text g))
               = sum_list (map (\<lambda>n. length (node_text n)) ns) + (length ns - 1)))"
proof (intro conjI impI)
  show "fst (NodeGroup_text \<lparr>nodes = [a, b]\<rparr>) = node_text a @ [0x0A] @ node_text b"
    by (simp add: NodeGroup_text_def)
next
  assume ne: "ns \<noteq> []"
  then obtain n ms where ns: "ns = n # ms"
    by (cases ns) auto
  have joined: "fst (NodeGroup_text \<lparr>nodes = ns\<rparr>) = join [0x0A] (map node_text ns)"
    by (simp add: NodeGroup_text_def)
  have shape: "join [0x0A] (map node_text ns)
      = node_text (hd ns) @ concat (map (\<lambda>n. 0x0A # node_text n) (tl ns))"
    by (simp add: ns join_Cons comp_def)
  have len: "length (join [0x0A] (map node_text ns))
      = sum_list (map (\<lambda>n. length (node_text n)) ns) + (length ns - 1)"
    using ne by (simp add: join_length comp_def)
  show "\<exists>g. NodeGroup_init ns = Inr g
           \<and> fst (NodeGroup_text g) = join [0x0A] (map node_text ns)
           \<and> fst (NodeGroup_text g)
               = node_text (hd ns) @ concat (map (\<lambda>n. 0x0A # node_text n) (tl ns))
           \<and> length (fst (NodeGroup_text g))
               = sum_list (map (\<lambda>n. length (node_text n)) ns) + (length ns - 1)"
    apply (rule exI [of _ "\<lparr>nodes = ns\<rparr>"])
    using ne joined shape len apply (simp add: init_accepts)
    done
qed

theorem NodeGroup_text_length_witness:
  "fst (NodeGroup_text \<lparr>nodes = [example_decorator, example_definition]\<rparr>)
     = [0x40, 0x64, 0x0A, 0x66]
   \<and> fst (NodeGroup_text
        \<lparr>nodes = [example_decorator, example_definition, example_identifier]\<rparr>)
     = [0x40, 0x64, 0x0A, 0x66, 0x0A, 0x66]
   \<and> length (fst (NodeGroup_text
        \<lparr>nodes = [example_decorator, example_definition, example_identifier]\<rparr>))
     = 2 + 1 + 1 + (3 - 1)"
proof -
  let ?ns = "[example_decorator, example_definition, example_identifier]"
  have ne: "?ns \<noteq> []"
    by simp
  from NodeGroup_text_length [of example_decorator example_definition ?ns] ne
  obtain g where init: "NodeGroup_init ?ns = Inr g"
    and shape: "fst (NodeGroup_text g)
        = node_text (hd ?ns) @ concat (map (\<lambda>n. 0x0A # node_text n) (tl ?ns))"
    and len: "length (fst (NodeGroup_text g))
        = sum_list (map (\<lambda>n. length (node_text n)) ?ns) + (length ?ns - 1)"
    and pair: "fst (NodeGroup_text \<lparr>nodes = [example_decorator, example_definition]\<rparr>)
        = node_text example_decorator @ [0x0A] @ node_text example_definition"
    by blast
  from init have g: "g = \<lparr>nodes = ?ns\<rparr>"
    by (simp add: NodeGroup_init_def)
  from pair shape len show ?thesis
    unfolding g by (simp add: example_defs)
qed

end
